theory Spec2Isabelle
  imports Main "HOL-Library.Multiset"
begin

section \<open>Document Path Resolver and Document Printer (package sets)\<close>

subsection \<open>Syntax trees\<close>

text \<open>
  The resolver and the printer work on the syntax trees of the template language
  (\<^verbatim>\<open>ast.Node\<close>). The tree types belong to the template language's library; the model
  keeps the node kinds the code switches on and one constructor for each group of
  kinds it treats alike.

  \<^item> \<open>NilNode\<close> is the nil interface value.
  \<^item> Expression nodes carry their relative position (\<^verbatim>\<open>token.RelPos\<close>), which the
    printer overwrites.
  \<^item> \<open>OtherExpr\<close> is any expression kind the code never names (binary and unary
    expressions, calls, selectors, ...); its string is the Go type name.
  \<^item> \<open>OtherNode\<close> is any node kind that is neither an expression nor a declaration the
    code names (comments, import specifications, package clauses, ...); its string is
    the Go type name.
\<close>

datatype RelPos = NoRelPos | Elided | NoSpace | Blank | Newline | NewSection

text \<open>
  A field label (\<^verbatim>\<open>ast.Label\<close>): \<open>NilLabel\<close> is the nil interface, \<open>Ident\<close> a plain
  identifier with its name, \<open>BasicLitLabel\<close> a quoted string or number label with its
  source text, \<open>OtherLabel\<close> any computed label (interpolation, pattern, dynamic field).
\<close>

datatype Label = NilLabel | Ident string | BasicLitLabel string | OtherLabel

datatype node =
    NilNode
  | File "node list"
  | ListLit RelPos "node list"
  | StructLit RelPos "node list"
  | Field Label node
  | EmbedDecl node
  | IdentExpr RelPos string
  | BasicLit RelPos string
  | OtherExpr RelPos string
  | OtherNode string

text \<open>
  Failures: the resolver's sentinel \<^verbatim>\<open>notFoundErr\<close>, a panic with its message, and any
  other Go error with its message.
\<close>

datatype error = notFoundErr | Panic string | Err string

subsection \<open>lookUp, lookField, labelStr\<close>

text \<open>\<^verbatim>\<open>strconv.Itoa\<close> on a slice index (never negative): the decimal digits, no sign,
  no leading zero.\<close>

definition digit_char :: "nat \<Rightarrow> char" where
  "digit_char d = char_of (48 + d)"

fun Itoa :: "nat \<Rightarrow> string" where
  "Itoa n = (if n < 10 then [digit_char n] else Itoa (n div 10) @ [digit_char (n mod 10)])"

declare Itoa.simps [simp del]

text \<open>The type assertion of \<open>labelStr\<close>: the label is a plain identifier.\<close>

fun is_Ident :: "Label \<Rightarrow> bool" where
  "is_Ident (Ident name) = True"
| "is_Ident _ = False"

fun labelStr :: "Label \<Rightarrow> string" where
  "labelStr (Ident name) = name"
| "labelStr _ = ''''"

fun lookField :: "node \<Rightarrow> string \<Rightarrow> node" where
  "lookField (Field label val) key = (if labelStr label = key then val else NilNode)"
| "lookField _ key = NilNode"

text \<open>
  \<open>lookUp\<close> with its three loops. \<open>lookDecls\<close> is the loop over the declarations of a
  file or the elements of a struct literal (the two loops have the same body),
  \<open>lookElts\<close> the loop over the elements of a list literal with the running index.
  Falling out of a loop, or out of the switch, reaches the final
  \<^verbatim>\<open>return nil, notFoundErr\<close>.
\<close>

fun lookUp :: "node \<Rightarrow> string list \<Rightarrow> error + node"
  and lookDecls :: "node list \<Rightarrow> string \<Rightarrow> string list \<Rightarrow> error + node"
  and lookElts :: "nat \<Rightarrow> node list \<Rightarrow> string \<Rightarrow> string list \<Rightarrow> error + node"
where
  "lookUp n [] = Inr n"
| "lookUp (File decls) (key # paths) = lookDecls decls key paths"
| "lookUp (ListLit p elts) (key # paths) = lookElts 0 elts key paths"
| "lookUp (StructLit p elts) (key # paths) = lookDecls elts key paths"
| "lookUp _ (key # paths) = Inl notFoundErr"
| "lookDecls [] key paths = Inl notFoundErr"
| "lookDecls (decl # decls) key paths =
     (let nnode = lookField decl key
      in if nnode \<noteq> NilNode then lookUp nnode paths else lookDecls decls key paths)"
| "lookElts index [] key paths = Inl notFoundErr"
| "lookElts index (elt # elts) key paths =
     (if Itoa index = key then lookUp elt paths else lookElts (Suc index) elts key paths)"

text \<open>
  The spec's reading of a list index: a segment that parses as a base-10 non-negative
  integer, that is a non-empty string of decimal digits, with its value.
\<close>

definition is_digit :: "char \<Rightarrow> bool" where
  "is_digit c \<longleftrightarrow> 48 \<le> (of_char c :: nat) \<and> (of_char c :: nat) \<le> 57"

definition parse_nat :: "string \<Rightarrow> nat option" where
  "parse_nat s =
     (if s \<noteq> [] \<and> list_all is_digit s
      then Some (foldl (\<lambda>acc c. 10 * acc + (of_char c - 48)) 0 s) else None)"

subsection \<open>toFile\<close>

fun is_File :: "node \<Rightarrow> bool" where
  "is_File (File decls) = True"
| "is_File _ = False"


fun is_StructLit :: "node \<Rightarrow> bool" where
  "is_StructLit (StructLit p elts) = True"
| "is_StructLit _ = False"

text \<open>The node kinds that implement \<^verbatim>\<open>ast.Expr\<close>.\<close>

fun is_Expr :: "node \<Rightarrow> bool" where
  "is_Expr (ListLit p elts) = True"
| "is_Expr (StructLit p elts) = True"
| "is_Expr (IdentExpr p name) = True"
| "is_Expr (BasicLit p lit) = True"
| "is_Expr (OtherExpr p ty) = True"
| "is_Expr _ = False"

text \<open>\<^verbatim>\<open>ast.SetRelPos\<close>: overwrite the relative position of an expression.\<close>

fun SetRelPos :: "node \<Rightarrow> RelPos \<Rightarrow> node" where
  "SetRelPos (ListLit p elts) r = ListLit r elts"
| "SetRelPos (StructLit p elts) r = StructLit r elts"
| "SetRelPos (IdentExpr p name) r = IdentExpr r name"
| "SetRelPos (BasicLit p lit) r = BasicLit r lit"
| "SetRelPos (OtherExpr p ty) r = OtherExpr r ty"
| "SetRelPos n r = n"

fun relPos :: "node \<Rightarrow> RelPos" where
  "relPos (ListLit p elts) = p"
| "relPos (StructLit p elts) = p"
| "relPos (IdentExpr p name) = p"
| "relPos (BasicLit p lit) = p"
| "relPos (OtherExpr p ty) = p"
| "relPos n = NoRelPos"

text \<open>What the \<^verbatim>\<open>%T\<close> verb prints for a node.\<close>

fun typeName :: "node \<Rightarrow> string" where
  "typeName NilNode = ''<nil>''"
| "typeName (File decls) = ''*ast.File''"
| "typeName (ListLit p elts) = ''*ast.ListLit''"
| "typeName (StructLit p elts) = ''*ast.StructLit''"
| "typeName (Field label val) = ''*ast.Field''"
| "typeName (EmbedDecl x) = ''*ast.EmbedDecl''"
| "typeName (IdentExpr p name) = ''*ast.Ident''"
| "typeName (BasicLit p lit) = ''*ast.BasicLit''"
| "typeName (OtherExpr p ty) = ty"
| "typeName (OtherNode ty) = ty"

text \<open>
  \<open>toFile\<close>, the cases of its type switch in the source's order: nil, struct literal,
  expression, file, default. The result is the file pointer (\<open>NilNode\<close> for the nil
  pointer) or the panic.
\<close>

definition toFile :: "node \<Rightarrow> error + node" where
  "toFile n =
     (case n of
        NilNode \<Rightarrow> Inr NilNode
      | StructLit p elts \<Rightarrow> Inr (File elts)
      | _ \<Rightarrow>
          if is_Expr n then Inr (File [EmbedDecl (SetRelPos n NoSpace)])
          else (case n of
                  File decls \<Rightarrow> Inr n
                | _ \<Rightarrow> Inl (Panic (''Unsupported node type '' @ typeName n))))"

subsection \<open>print\<close>


text \<open>
  The state the closure \<^verbatim>\<open>format\<close> inside \<^verbatim>\<open>print\<close> captures and writes: the buffer
  \<open>w\<close> whose content \<open>print\<close> returns, the flag \<open>useSep\<close>, and the process's standard
  output, where \<^verbatim>\<open>fmt.Println\<close> writes.
\<close>

record printer_state =
  w :: string
  useSep :: bool
  stdout :: string



section \<open>The Appfile (package appfile)\<close>

subsection \<open>Data\<close>

text \<open>
  A value decoded from YAML or JSON into \<^verbatim>\<open>interface{}\<close>. A mapping keeps its entries
  as a list of pairs with distinct keys. Numbers are decoded to \<^verbatim>\<open>float64\<close> by the
  library; the code modelled here never computes with them, so the model keeps an
  integer.
\<close>

datatype jvalue =
    Null
  | Boolean bool
  | Number int
  | String string
  | Mapping "(string \<times> jvalue) list"
  | Sequence "jvalue list"

text \<open>\<^verbatim>\<open>Service\<close> is \<^verbatim>\<open>map[string]interface{}\<close>.\<close>

type_synonym Service = "(string \<times> jvalue) list"

text \<open>
  The configuration store (\<^verbatim>\<open>config.Store\<close>), an interface whose implementations are
  not among the sources; the method \<open>BuildOAMApplication\<close> calls is a field.
\<close>

record Store =
  GetConfigData :: "string \<Rightarrow> string \<Rightarrow> error + string"

text \<open>
  \<^verbatim>\<open>AppFile\<close>. The two maps keep their entries as lists of pairs with distinct keys;
  the times are seconds since the epoch.
\<close>

record AppFile =
  Name :: string
  CreateTime :: int
  UpdateTime :: int
  Services :: "(string \<times> Service) list"
  Secrets :: "(string \<times> string) list"
  configGetter :: Store

text \<open>\<^verbatim>\<open>NewAppFile\<close>; \<open>Local\<close> is the store \<^verbatim>\<open>config.Local{}\<close>, a parameter.\<close>

definition NewAppFile :: "Store \<Rightarrow> AppFile" where
  "NewAppFile Local =
     \<lparr>Name = '''', CreateTime = 0, UpdateTime = 0, Services = [], Secrets = [],
      configGetter = Local\<rparr>"

subsection \<open>LoadFromFile\<close>

text \<open>
  \<^verbatim>\<open>filepath.Ext\<close>: the suffix of the path from the last dot of its last element, empty
  when the last element has no dot.
\<close>

fun ext_scan :: "string \<Rightarrow> string \<Rightarrow> string" where
  "ext_scan [] suffix = ''''"
| "ext_scan (c # before) suffix =
     (if c = CHR ''/'' then ''''
      else if c = CHR ''.'' then c # suffix
      else ext_scan before (c # suffix))"

definition Ext :: "string \<Rightarrow> string" where
  "Ext path = ext_scan (rev path) ''''"

text \<open>
  The library functions \<open>LoadFromFile\<close> and \<open>JSONToYaml\<close> call, parameters of the model:
  \<^verbatim>\<open>ioutil.ReadFile\<close> (the file system), \<^verbatim>\<open>filepath.Clean\<close>, \<^verbatim>\<open>json.Valid\<close>,
  \<^verbatim>\<open>yaml.JSONToYAML\<close> and \<^verbatim>\<open>yaml.Unmarshal\<close>, which fills the appfile it is given.
\<close>

record Lib =
  ReadFile :: "string \<Rightarrow> error + string"
  Clean :: "string \<Rightarrow> string"
  json_Valid :: "string \<Rightarrow> bool"
  yaml_JSONToYAML :: "string \<Rightarrow> error + string"
  yaml_Unmarshal :: "string \<Rightarrow> AppFile \<Rightarrow> error + AppFile"

definition JSONToYaml :: "Lib \<Rightarrow> string \<Rightarrow> AppFile \<Rightarrow> error + AppFile" where
  "JSONToYaml L data appFile =
     (case yaml_JSONToYAML L data of
        Inl e \<Rightarrow> Inl e
      | Inr j \<Rightarrow>
          (case yaml_Unmarshal L j appFile of
             Inl err \<Rightarrow> Inl err
           | Inr appFile' \<Rightarrow> Inr appFile'))"

definition LoadFromFile :: "Lib \<Rightarrow> Store \<Rightarrow> string \<Rightarrow> error + AppFile" where
  "LoadFromFile L Local filename =
     (case ReadFile L (Clean L filename) of
        Inl err \<Rightarrow> Inl err
      | Inr b \<Rightarrow>
          (let af = NewAppFile Local;
               ext = Ext filename
           in if ext = ''.yaml'' \<or> ext = ''.yml'' then yaml_Unmarshal L b af
              else if ext = ''.json'' then JSONToYaml L b af
              else if json_Valid L b then JSONToYaml L b af
              else yaml_Unmarshal L b af))"

subsection \<open>Rendered objects\<close>

text \<open>
  The types of the rendered objects are declared outside the sources; the records keep
  the fields the code reads or writes and the spec's description of a rendered
  component (name, workload kind, workload settings, traits, scopes).

  \<^verbatim>\<open>runtime.RawExtension\<close> holds raw JSON bytes. The only value the code stores
  there is the encoding of a string map, and the model keeps the map's entries
  (\<open>None\<close>: no bytes).
\<close>

type_synonym RawExtension = "(string \<times> string) list option"

record ApplicationComponent =
  compName :: string
  WorkloadType :: string
  Settings :: "(string \<times> jvalue) list"
  Traits :: "(string \<times> (string \<times> jvalue) list) list"
  Scopes :: RawExtension

record Application =
  appAPIVersion :: string
  appKind :: string
  app_Name :: string
  app_Namespace :: string
  Components :: "ApplicationComponent list"

record TypedReference =
  refAPIVersion :: string
  refKind :: string
  refName :: string

record HealthScope =
  hsAPIVersion :: string
  hsKind :: string
  hsName :: string
  hsNamespace :: string
  WorkloadReferences :: "TypedReference list"

record ConfigMap =
  cmName :: string
  cmNamespace :: string
  cmData :: "(string \<times> string) list"

text \<open>\<^verbatim>\<open>oam.Object\<close>: the assistant objects are configuration maps and health scopes.\<close>

datatype Object = ConfigMapObject ConfigMap | HealthScopeObject HealthScope

record EnvMeta =
  envName :: string
  envNamespace :: string

subsection \<open>Capability templates\<close>

datatype CapType = TypeWorkload | TypeTrait

record Template =
  Captype :: CapType

text \<open>\<^verbatim>\<open>template.Manager\<close>: the templates by capability name.\<close>

record Manager =
  Templates :: "(string \<times> Template) list"

subsection \<open>BuildOAMApplication\<close>

text \<open>
  What \<open>BuildOAMApplication\<close> and \<open>addDefaultHealthScopeToApplication\<close> use and the
  sources do not contain, parameters of the model: the methods of a service
  (\<^verbatim>\<open>GetUserConfigName\<close>, \<^verbatim>\<open>RenderServiceToApplicationComponent\<close>), the functions of
  package \<^verbatim>\<open>config\<close>, and the constants of package \<^verbatim>\<open>v1alpha2\<close> (the API version of the
  scheme, and the API version and kind of a health scope).
\<close>

record Collab =
  GetUserConfigName :: "Service \<Rightarrow> string"
  RenderServiceToApplicationComponent ::
    "Service \<Rightarrow> Manager \<Rightarrow> string \<Rightarrow> error + ApplicationComponent"
  DecodeConfigFormat :: "string \<Rightarrow> error + (string \<times> string) list"
  GenConfigMapName :: "string \<Rightarrow> string \<Rightarrow> string \<Rightarrow> string"
  ToConfigMap :: "Store \<Rightarrow> string \<Rightarrow> string \<Rightarrow> (string \<times> string) list \<Rightarrow> error + ConfigMap"
  SchemeGroupVersion :: string
  HealthScopeGroupVersion :: string
  HealthScopeKind :: string

text \<open>
  Modelled from the spec: \<^verbatim>\<open>GetServices\<close> is not among the sources; the spec's renderer
  works through the descriptor's name-keyed mapping of services.
\<close>

definition GetServices :: "AppFile \<Rightarrow> (string \<times> Service) list" where
  "GetServices app = Services app"

text \<open>
  A \<^verbatim>\<open>range\<close> over a Go map visits every entry once, in an order the language leaves
  unspecified and that may differ from one loop to the next. \<open>go_range m visit\<close> says
  that \<open>visit\<close> is one of the orders in which a loop over the map \<open>m\<close> can run.
\<close>

definition go_range :: "('k \<times> 'v) list \<Rightarrow> ('k \<times> 'v) list \<Rightarrow> bool" where
  "go_range m visit \<longleftrightarrow> mset visit = mset m"

definition FormatDefaultHealthScopeName :: "string \<Rightarrow> string" where
  "FormatDefaultHealthScopeName appName = appName @ ''-default-health''"

text \<open>
  \<open>addDefaultHealthScopeToApplication\<close> writes the components of the application it is
  given through the pointer; the model returns the health scope and the application
  as the call leaves it.
\<close>

definition addDefaultHealthScopeToApplication ::
  "Collab \<Rightarrow> Application \<Rightarrow> HealthScope \<times> Application"
where
  "addDefaultHealthScopeToApplication C app =
     (let health = \<lparr>hsAPIVersion = HealthScopeGroupVersion C, hsKind = HealthScopeKind C,
                     hsName = FormatDefaultHealthScopeName (app_Name app),
                     hsNamespace = app_Namespace app,
                     WorkloadReferences = []\<rparr>;
          data = Some [(''healthscopes.core.oam.dev'', hsName health)]
      in (health, app\<lparr>Components := map (\<lambda>c. c\<lparr>Scopes := data\<rparr>) (Components app)\<rparr>))"

text \<open>
  The body of the loop of \<open>BuildOAMApplication\<close> for one service: the objects and the
  component it appends, or the error it returns.
\<close>

definition renderService ::
  "Collab \<Rightarrow> AppFile \<Rightarrow> EnvMeta \<Rightarrow> Manager \<Rightarrow> string \<Rightarrow> Service \<Rightarrow>
   error + (Object list \<times> ApplicationComponent)"
where
  "renderService C app env tm serviceName svc =
     (let configname = GetUserConfigName C svc
      in case (if configname \<noteq> '''' then
                 (case GetConfigData (configGetter app) configname (envName env) of
                    Inl err \<Rightarrow> Inl err
                  | Inr configData \<Rightarrow>
                      (case DecodeConfigFormat C configData of
                         Inl err \<Rightarrow> Inl err
                       | Inr decodedData \<Rightarrow>
                           (case ToConfigMap C (configGetter app)
                                   (GenConfigMapName C (Name app) serviceName configname)
                                   (envName env) decodedData of
                              Inl err \<Rightarrow> Inl err
                            | Inr cm \<Rightarrow> Inr [ConfigMapObject cm])))
               else Inr []) of
           Inl err \<Rightarrow> Inl err
         | Inr cms \<Rightarrow>
             (case RenderServiceToApplicationComponent C svc tm serviceName of
                Inl err \<Rightarrow> Inl err
              | Inr component \<Rightarrow> Inr (cms, component)))"

text \<open>
  The loop, over the entries in the order \<open>visit\<close> in which the map is ranged over;
  \<open>comps\<close> and \<open>objs\<close> are \<^verbatim>\<open>servApp.Spec.Components\<close> and \<^verbatim>\<open>assistantObjects\<close> so far.
\<close>

fun renderServices ::
  "Collab \<Rightarrow> AppFile \<Rightarrow> EnvMeta \<Rightarrow> Manager \<Rightarrow> (string \<times> Service) list \<Rightarrow>
   ApplicationComponent list \<Rightarrow> Object list \<Rightarrow>
   error + (ApplicationComponent list \<times> Object list)"
where
  "renderServices C app env tm [] comps objs = Inr (comps, objs)"
| "renderServices C app env tm ((serviceName, svc) # rest) comps objs =
     (case renderService C app env tm serviceName svc of
        Inl err \<Rightarrow> Inl err
      | Inr (cms, component) \<Rightarrow>
          renderServices C app env tm rest (comps @ [component]) (objs @ cms))"

text \<open>
  \<open>BuildOAMApplication\<close>, run with the visiting order \<open>visit\<close> of its loop. The result is
  the returned triple: the application (\<open>None\<close> for nil), the assistant objects (the
  empty list for nil) and the error (\<open>None\<close> for nil). The progress lines written to
  \<^verbatim>\<open>io\<close> when \<^verbatim>\<open>silence\<close> is off are not part of the result and are left out.
\<close>

definition BuildOAMApplication ::
  "Collab \<Rightarrow> AppFile \<Rightarrow> EnvMeta \<Rightarrow> Manager \<Rightarrow> (string \<times> Service) list \<Rightarrow>
   Application option \<times> Object list \<times> error option"
where
  "BuildOAMApplication C app env tm visit =
     (case renderServices C app env tm visit [] [] of
        Inl err \<Rightarrow> (None, [], Some err)
      | Inr (comps, assistantObjects) \<Rightarrow>
          (let servApp = \<lparr>appAPIVersion = SchemeGroupVersion C, appKind = ''Application'',
                          app_Name = Name app, app_Namespace = envNamespace env,
                          Components = comps\<rparr>;
               (health, servApp') = addDefaultHealthScopeToApplication C servApp
           in (Some servApp', assistantObjects @ [HealthScopeObject health], None)))"

section \<open>The validator (package application)\<close>

text \<open>
  Modelled from the spec: \<^verbatim>\<open>Validate\<close> and the template manager's test for a trait
  name are not among the sources; only the test \<^verbatim>\<open>TestApplication\<close> is. The spec's
  rules, checked in its order, the first failure ending the check:
  the name must be non-empty; there must be at least one service; in every service,
  every field whose name is a known trait capability must have a mapping value.
  The test registers a known trait as a template of capability type trait under the
  trait's name.
\<close>

definition IsTrait :: "Manager \<Rightarrow> string \<Rightarrow> bool" where
  "IsTrait tm name =
     (case map_of (Templates tm) name of
        None \<Rightarrow> False
      | Some t \<Rightarrow> Captype t = TypeTrait)"

fun is_Mapping :: "jvalue \<Rightarrow> bool" where
  "is_Mapping (Mapping entries) = True"
| "is_Mapping _ = False"

definition trait_must_be_map :: "string \<Rightarrow> string \<Rightarrow> error" where
  "trait_must_be_map traitName serviceName =
     Err (''trait '' @ traitName @ '' in '' @ [CHR 0x27] @ serviceName @ [CHR 0x27]
          @ '' must be map'')"

fun validateFields :: "Manager \<Rightarrow> string \<Rightarrow> (string \<times> jvalue) list \<Rightarrow> error option" where
  "validateFields tm serviceName [] = None"
| "validateFields tm serviceName ((traitName, traitData) # rest) =
     (if IsTrait tm traitName \<and> \<not> is_Mapping traitData
      then Some (trait_must_be_map traitName serviceName)
      else validateFields tm serviceName rest)"

fun validateServices :: "Manager \<Rightarrow> (string \<times> Service) list \<Rightarrow> error option" where
  "validateServices tm [] = None"
| "validateServices tm ((serviceName, svc) # rest) =
     (case validateFields tm serviceName svc of
        Some err \<Rightarrow> Some err
      | None \<Rightarrow> validateServices tm rest)"

definition Validate :: "Manager \<Rightarrow> AppFile \<Rightarrow> error option" where
  "Validate tm app =
     (if Name app = '''' then Some (Err ''name is required'')
      else if length (Services app) = 0 then Some (Err ''at least one service is required'')
      else validateServices tm (Services app))"

text \<open>
  The descriptors of \<^verbatim>\<open>TestApplication\<close> as the YAML decoder leaves them, and the
  template manager the test builds from the expected traits of a case.
\<close>

definition frontendNormal :: Service where
  "frontendNormal =
     [(''image'', String ''inanimate/echo-server''),
      (''env'', Mapping [(''PORT'', Number 8080)]),
      (''autoscaling'', Mapping [(''max'', Number 10), (''min'', Number 1)]),
      (''rollout'', Mapping [(''strategy'', String ''canary''), (''step'', Number 5)])]"

definition backendNormal :: Service where
  "backendNormal = [(''type'', String ''cloneset''), (''image'', String ''back:v1'')]"

definition yamlNormal :: "Store \<Rightarrow> AppFile" where
  "yamlNormal Local =
     (NewAppFile Local)\<lparr>Name := ''myapp'',
        Services := [(''frontend'', frontendNormal), (''backend'', backendNormal)]\<rparr>"

definition yamlNoService :: "Store \<Rightarrow> AppFile" where
  "yamlNoService Local = (NewAppFile Local)\<lparr>Name := ''myapp''\<rparr>"

definition yamlNoName :: "Store \<Rightarrow> AppFile" where
  "yamlNoName Local =
     (NewAppFile Local)\<lparr>Services :=
        [(''frontend'', [(''image'', String ''inanimate/echo-server''),
                         (''env'', Mapping [(''PORT'', Number 8080)])])]\<rparr>"

definition yamlTraitNotMap :: "Store \<Rightarrow> AppFile" where
  "yamlTraitNotMap Local =
     (NewAppFile Local)\<lparr>Name := ''myapp'',
        Services :=
          [(''frontend'', [(''image'', String ''inanimate/echo-server''),
                           (''env'', Mapping [(''PORT'', Number 8080)]),
                           (''autoscaling'', Number 10)])]\<rparr>"

definition traitTemplates :: "string list \<Rightarrow> Manager" where
  "traitTemplates names = \<lparr>Templates = map (\<lambda>k. (k, \<lparr>Captype = TypeTrait\<rparr>)) names\<rparr>"

text \<open>A configuration store with no configuration sets, for running the examples.\<close>

definition emptyStore :: Store where
  "emptyStore = \<lparr>GetConfigData = (\<lambda>name env. Inl (Err ''config not found''))\<rparr>"

section \<open>Stand-ins for the libraries, for running examples\<close>


text \<open>
  Stand-ins for the file system and the decoders: four files; a text counts as valid
  JSON when it opens with a brace; the conversion from JSON puts a comment line before
  the text; the decoder only records the text it was given, as the name of the
  appfile.
\<close>

definition exampleFiles :: "(string \<times> string) list" where
  "exampleFiles =
     [(''vela.yaml'', ''{\"name\": \"a\"}''),
      (''vela.json'', ''{\"name\": \"b\"}''),
      (''Appfile'', ''{\"name\": \"c\"}''),
      (''conf.d/Appfile'', ''name: d'')]"

definition exampleLib :: Lib where
  "exampleLib =
     \<lparr>ReadFile = (\<lambda>path. case map_of exampleFiles path of
                            None \<Rightarrow> Inl (Err ''no such file'')
                          | Some b \<Rightarrow> Inr b),
      Clean = (\<lambda>path. path),
      json_Valid = (\<lambda>b. take 1 b = ''{''),
      yaml_JSONToYAML = (\<lambda>b. Inr (''# from JSON\<newline>'' @ b)),
      yaml_Unmarshal = (\<lambda>b af. Inr (af\<lparr>Name := b\<rparr>))\<rparr>"

text \<open>
  Stand-ins for the methods of a service, the functions of package \<^verbatim>\<open>config\<close> and the
  constants of package \<^verbatim>\<open>v1alpha2\<close>: the configuration name of a service is its
  field \<open>config\<close>; a service without an image does not render
  (\<^verbatim>\<open>ErrImageNotDefined\<close>), any other renders to a component of its name whose workload
  type is its field \<open>type\<close>, or \<open>webservice\<close>; configuration data decode to one entry.
\<close>

definition exampleCollab :: Collab where
  "exampleCollab =
     \<lparr>GetUserConfigName =
        (\<lambda>svc. case map_of svc ''config'' of Some (String name) \<Rightarrow> name | _ \<Rightarrow> ''''),
      RenderServiceToApplicationComponent =
        (\<lambda>svc tm serviceName.
           case map_of svc ''image'' of
             None \<Rightarrow> Inl (Err ''image not defined'')
           | Some img \<Rightarrow>
               Inr \<lparr>compName = serviceName,
                    WorkloadType =
                      (case map_of svc ''type'' of Some (String t) \<Rightarrow> t | _ \<Rightarrow> ''webservice''),
                    Settings = [(''image'', img)], Traits = [], Scopes = None\<rparr>),
      DecodeConfigFormat = (\<lambda>data. Inr [(''data'', data)]),
      GenConfigMapName =
        (\<lambda>appName serviceName configName.
           appName @ ''-'' @ serviceName @ ''-'' @ configName),
      ToConfigMap =
        (\<lambda>store name env data. Inr \<lparr>cmName = name, cmNamespace = env, cmData = data\<rparr>),
      SchemeGroupVersion = ''core.oam.dev/v1alpha2'',
      HealthScopeGroupVersion = ''core.oam.dev/v1alpha2'',
      HealthScopeKind = ''HealthScope''\<rparr>"

definition exampleEnv :: EnvMeta where
  "exampleEnv = \<lparr>envName = ''default'', envNamespace = ''default''\<rparr>"

text \<open>
  Three descriptors: two services that render; the same with a third service that has
  no image; one service that names a configuration set the store does not have.
\<close>

definition twoServices :: AppFile where
  "twoServices =
     (NewAppFile emptyStore)\<lparr>Name := ''myapp'',
        Services := [(''frontend'', [(''image'', String ''inanimate/echo-server'')]),
                     (''backend'', backendNormal)]\<rparr>"

definition noImage :: AppFile where
  "noImage =
     (NewAppFile emptyStore)\<lparr>Name := ''myapp'',
        Services := [(''frontend'', [(''image'', String ''inanimate/echo-server'')]),
                     (''backend'', backendNormal),
                     (''worker'', [(''type'', String ''task'')])]\<rparr>"

definition missingConfig :: AppFile where
  "missingConfig =
     (NewAppFile emptyStore)\<lparr>Name := ''myapp'',
        Services := [(''frontend'', [(''image'', String ''inanimate/echo-server''),
                                     (''config'', String ''test'')])]\<rparr>"

section \<open>Properties of the Document Path Resolver\<close>

subsection \<open>Decimal indices\<close>







subsection \<open>The loops\<close>




lemma lookDecls_first:
  "(\<And>d. d \<in> set pre \<Longrightarrow> lookField d key = NilNode) \<Longrightarrow> lookField d key \<noteq> NilNode \<Longrightarrow>
   lookDecls (pre @ d # post) key paths = lookUp (lookField d key) paths"
  by (induction pre) simp_all


subsection \<open>Claim C5\<close>



text \<open>
  The comparison is with the decimal form of the position itself: a segment with a
  leading zero parses as a number, but it is the decimal form of no position and is
  not found.
\<close>

lemma lookUp_list_leading_zero:
  "parse_nat ''01'' = Some 1 \<and>
   lookUp (ListLit NoRelPos [BasicLit NoRelPos ''a'', BasicLit NoRelPos ''b'']) [''01'']
     = Inl notFoundErr"
  by code_simp


subsection \<open>Claim C6\<close>




subsection \<open>Claim C10\<close>

text \<open>
  C10, as the claim states it, fails for a node with more than one such field. Every
  label that is not a plain identifier stringifies to the same empty string, and the
  first match wins: in the struct literal \<open>{"a-b": 1, "c-d": 2}\<close> both labels are
  quoted strings, and the empty segment resolves to \<open>1\<close>; the value of the field
  \<open>"c-d"\<close> is not returned.
\<close>

theorem lookUp_empty_segment_counterexample:
  "\<not> is_Ident (BasicLitLabel ''\"c-d\"'') \<and>
   Field (BasicLitLabel ''\"c-d\"'') (BasicLit NoRelPos ''2'') \<in>
     set [Field (BasicLitLabel ''\"a-b\"'') (BasicLit NoRelPos ''1''),
          Field (BasicLitLabel ''\"c-d\"'') (BasicLit NoRelPos ''2'')] \<and>
   lookUp (StructLit NoRelPos
             [Field (BasicLitLabel ''\"a-b\"'') (BasicLit NoRelPos ''1''),
              Field (BasicLitLabel ''\"c-d\"'') (BasicLit NoRelPos ''2'')])
     [''''] = Inr (BasicLit NoRelPos ''1'') \<and>
   lookUp (StructLit NoRelPos
             [Field (BasicLitLabel ''\"a-b\"'') (BasicLit NoRelPos ''1''),
              Field (BasicLitLabel ''\"c-d\"'') (BasicLit NoRelPos ''2'')])
     [''''] \<noteq> Inr (BasicLit NoRelPos ''2'')"
  by simp

text \<open>
  C10, amended. \<open>labelStr\<close> gives the empty string for every label that is not a
  plain identifier. So in a file or a struct literal that contains a field with such a
  label and a value, the empty segment is not skipped: the walk goes on from the value
  of a field of the node whose label stringifies to the empty string, the first one
  that has a value. When no declaration before the field matches the empty segment
  with a value, that is the field's own value, and the path of the empty segment alone
  returns it.
\<close>

theorem lookUp_empty_segment:
  "\<not> is_Ident l \<and> v \<noteq> NilNode \<and> Field l v \<in> set decls \<longrightarrow>
     labelStr l = '''' \<and>
     (\<exists>pre l' v' post.
        decls = pre @ Field l' v' # post \<and> labelStr l' = '''' \<and> v' \<noteq> NilNode \<and>
        (\<forall>d \<in> set pre. lookField d '''' = NilNode) \<and>
        lookUp (File decls) ('''' # paths) = lookUp v' paths \<and>
        lookUp (StructLit p decls) ('''' # paths) = lookUp v' paths) \<and>
     (\<forall>pre post. decls = pre @ Field l v # post \<and> (\<forall>d \<in> set pre. lookField d '''' = NilNode) \<longrightarrow>
        lookUp (File decls) ('''' # paths) = lookUp v paths \<and>
        lookUp (StructLit p decls) ('''' # paths) = lookUp v paths \<and>
        lookUp (File decls) [''''] = Inr v \<and>
        lookUp (StructLit p decls) [''''] = Inr v)"
proof (intro impI)
  assume a: "\<not> is_Ident l \<and> v \<noteq> NilNode \<and> Field l v \<in> set decls"
  then have ls: "labelStr l = ''''" by (cases l) simp_all
  with a have "\<exists>d \<in> set decls. lookField d '''' \<noteq> NilNode"
    by (intro bexI [of _ "Field l v"]) simp_all
  then obtain pre d0 post where sp: "decls = pre @ d0 # post"
    "lookField d0 '''' \<noteq> NilNode" "\<forall>x \<in> set pre. \<not> lookField x '''' \<noteq> NilNode"
    using split_list_first_prop [of decls "\<lambda>d. lookField d '''' \<noteq> NilNode"] by blast
  then have skip: "\<forall>d \<in> set pre. lookField d '''' = NilNode" by simp
  from sp(2) obtain l' v' where dv: "d0 = Field l' v'" "labelStr l' = ''''" "v' \<noteq> NilNode"
    by (cases d0) (auto split: if_splits)
  have "lookDecls decls '''' paths = lookUp (lookField d0 '''') paths"
    using sp skip lookDecls_first [of pre "''''" d0 post paths] by simp
  with dv have "lookDecls decls '''' paths = lookUp v' paths" by simp
  with sp(1) dv skip
  have ex: "\<exists>pre l' v' post.
        decls = pre @ Field l' v' # post \<and> labelStr l' = '''' \<and> v' \<noteq> NilNode \<and>
        (\<forall>d \<in> set pre. lookField d '''' = NilNode) \<and>
        lookUp (File decls) ('''' # paths) = lookUp v' paths \<and>
        lookUp (StructLit p decls) ('''' # paths) = lookUp v' paths"
    by (intro exI [of _ pre] exI [of _ l'] exI [of _ v'] exI [of _ post]) simp
  have first: "\<forall>pre post. decls = pre @ Field l v # post \<and> (\<forall>d \<in> set pre. lookField d '''' = NilNode) \<longrightarrow>
        lookUp (File decls) ('''' # paths) = lookUp v paths \<and>
        lookUp (StructLit p decls) ('''' # paths) = lookUp v paths \<and>
        lookUp (File decls) [''''] = Inr v \<and>
        lookUp (StructLit p decls) [''''] = Inr v"
  proof (intro allI impI)
    fix pre post
    assume b: "decls = pre @ Field l v # post \<and> (\<forall>d \<in> set pre. lookField d '''' = NilNode)"
    have "\<And>ps. lookDecls decls '''' ps = lookUp (lookField (Field l v) '''') ps"
      using b a ls lookDecls_first [of pre "''''" "Field l v" post] by simp
    then have "\<And>ps. lookDecls decls '''' ps = lookUp v ps" using ls by simp
    then show "lookUp (File decls) ('''' # paths) = lookUp v paths \<and>
        lookUp (StructLit p decls) ('''' # paths) = lookUp v paths \<and>
        lookUp (File decls) [''''] = Inr v \<and>
        lookUp (StructLit p decls) [''''] = Inr v"
      by simp
  qed
  from ls ex first show "labelStr l = '''' \<and>
     (\<exists>pre l' v' post.
        decls = pre @ Field l' v' # post \<and> labelStr l' = '''' \<and> v' \<noteq> NilNode \<and>
        (\<forall>d \<in> set pre. lookField d '''' = NilNode) \<and>
        lookUp (File decls) ('''' # paths) = lookUp v' paths \<and>
        lookUp (StructLit p decls) ('''' # paths) = lookUp v' paths) \<and>
     (\<forall>pre post. decls = pre @ Field l v # post \<and> (\<forall>d \<in> set pre. lookField d '''' = NilNode) \<longrightarrow>
        lookUp (File decls) ('''' # paths) = lookUp v paths \<and>
        lookUp (StructLit p decls) ('''' # paths) = lookUp v paths \<and>
        lookUp (File decls) [''''] = Inr v \<and>
        lookUp (StructLit p decls) [''''] = Inr v)"
    by blast
qed

text \<open>
  The theorem at the struct literal \<open>{a: 1, "b-c": 2}\<close>, whose second label is a quoted
  string: the empty segment resolves to \<open>2\<close>.
\<close>

theorem lookUp_empty_segment_witness:
  "labelStr (BasicLitLabel ''\"b-c\"'') = '''' \<and>
   lookUp (StructLit NoRelPos
             [Field (Ident ''a'') (BasicLit NoRelPos ''1''),
              Field (BasicLitLabel ''\"b-c\"'') (BasicLit NoRelPos ''2'')])
     [''''] = Inr (BasicLit NoRelPos ''2'')"
proof -
  let ?l = "BasicLitLabel ''\"b-c\"''"
  let ?v = "BasicLit NoRelPos ''2''"
  let ?pre = "[Field (Ident ''a'') (BasicLit NoRelPos ''1'')]"
  let ?decls = "?pre @ Field ?l ?v # []"
  have h: "\<not> is_Ident ?l \<and> ?v \<noteq> NilNode \<and> Field ?l ?v \<in> set ?decls"
    by simp
  have pre: "\<forall>d \<in> set ?pre. lookField d '''' = NilNode" by simp
  from lookUp_empty_segment [of ?l ?v ?decls "[]" NoRelPos] h
  have "labelStr ?l = ''''" and
    "\<forall>pre post. ?decls = pre @ Field ?l ?v # post \<and> (\<forall>d \<in> set pre. lookField d '''' = NilNode) \<longrightarrow>
        lookUp (StructLit NoRelPos ?decls) [''''] = Inr ?v"
    by blast+
  with pre have "labelStr ?l = ''''" and "lookUp (StructLit NoRelPos ?decls) [''''] = Inr ?v"
    by blast+
  then show ?thesis by simp
qed

section \<open>Properties of the Document Printer\<close>

subsection \<open>Claim C8\<close>

text \<open>
  C8, as the claim states it, fails at the nil node: it is not a struct literal, not an
  expression and not a file, and \<open>toFile\<close> does not panic on it. The first case of the
  type switch returns the nil file for it.
\<close>

theorem toFile_nil_counterexample:
  "\<not> is_StructLit NilNode \<and> \<not> is_Expr NilNode \<and> \<not> is_File NilNode \<and>
   toFile NilNode = Inr NilNode"
  by (simp add: toFile_def)

text \<open>
  C8, amended. For every node other than nil that is not a struct literal, an
  expression or a file, the conversion panics, naming the node's type. The nil node is
  converted to the nil file, without a panic. A struct literal becomes the file of its
  elements; any other expression becomes the file whose one declaration embeds the
  expression, its relative position set to no space; a file is returned as it is. So
  for every node other than nil a conversion that returns, returns a file.
\<close>

theorem toFile_cases:
  "(n \<noteq> NilNode \<and> \<not> is_StructLit n \<and> \<not> is_Expr n \<and> \<not> is_File n \<longrightarrow>
      toFile n = Inl (Panic (''Unsupported node type '' @ typeName n))) \<and>
   toFile NilNode = Inr NilNode \<and>
   toFile (StructLit p elts) = Inr (File elts) \<and>
   (is_Expr n \<and> \<not> is_StructLit n \<longrightarrow>
      toFile n = Inr (File [EmbedDecl (SetRelPos n NoSpace)]) \<and>
      relPos (SetRelPos n NoSpace) = NoSpace) \<and>
   toFile (File decls) = Inr (File decls) \<and>
   (n \<noteq> NilNode \<longrightarrow> (\<forall>f. toFile n = Inr f \<longrightarrow> is_File f))"
  by (cases n) (simp_all add: toFile_def)

text \<open>
  The theorem at a field (a declaration, not an expression), which panics, and at the
  bare expression \<open>42\<close> written after a new line, which is embedded with no space.
\<close>

theorem toFile_cases_witness:
  "toFile (Field (Ident ''a'') (BasicLit NoRelPos ''1'')) =
     Inl (Panic ''Unsupported node type *ast.Field'') \<and>
   toFile (BasicLit Newline ''42'') = Inr (File [EmbedDecl (BasicLit NoSpace ''42'')]) \<and>
   is_File (File [EmbedDecl (BasicLit NoSpace ''42'')])"
proof -
  let ?fld = "Field (Ident ''a'') (BasicLit NoRelPos ''1'')"
  let ?lit = "BasicLit Newline ''42''"
  have h1: "?fld \<noteq> NilNode \<and> \<not> is_StructLit ?fld \<and> \<not> is_Expr ?fld \<and> \<not> is_File ?fld"
    by simp
  have h2: "is_Expr ?lit \<and> \<not> is_StructLit ?lit" by simp
  have h3: "?lit \<noteq> NilNode" by simp
  from toFile_cases [of ?fld] h1
  have a: "toFile ?fld = Inl (Panic (''Unsupported node type '' @ typeName ?fld))" by blast
  from toFile_cases [of ?lit] h2
  have b: "toFile ?lit = Inr (File [EmbedDecl (SetRelPos ?lit NoSpace)])" by blast
  from toFile_cases [of ?lit] h3 b
  have c: "is_File (File [EmbedDecl (SetRelPos ?lit NoSpace)])" by blast
  from a b c show ?thesis by simp
qed

subsection \<open>Claim C7\<close>





section \<open>Properties of loading and validating an appfile\<close>

subsection \<open>Claim C9\<close>

text \<open>
  C9. For a file that can be read: with the extension \<open>.yaml\<close> or \<open>.yml\<close> its bytes
  are decoded as YAML, with the extension \<open>.json\<close> they are converted from JSON to YAML
  and then decoded, whatever the bytes are; with any other extension they are
  converted from JSON and decoded when they are valid JSON text, and decoded as YAML
  directly otherwise. A file that cannot be read gives the read error.
\<close>

theorem LoadFromFile_dispatch:
  "(\<forall>err. ReadFile L (Clean L filename) = Inl err \<longrightarrow> LoadFromFile L Local filename = Inl err) \<and>
   (ReadFile L (Clean L filename) = Inr b \<longrightarrow>
      (Ext filename = ''.yaml'' \<or> Ext filename = ''.yml'' \<longrightarrow>
         LoadFromFile L Local filename = yaml_Unmarshal L b (NewAppFile Local)) \<and>
      (Ext filename = ''.json'' \<longrightarrow>
         LoadFromFile L Local filename = JSONToYaml L b (NewAppFile Local)) \<and>
      (Ext filename \<noteq> ''.yaml'' \<and> Ext filename \<noteq> ''.yml'' \<and> Ext filename \<noteq> ''.json'' \<longrightarrow>
         LoadFromFile L Local filename =
           (if json_Valid L b then JSONToYaml L b (NewAppFile Local)
            else yaml_Unmarshal L b (NewAppFile Local)))) \<and>
   JSONToYaml L b af =
     (case yaml_JSONToYAML L b of
        Inl e \<Rightarrow> Inl e
      | Inr j \<Rightarrow> yaml_Unmarshal L j af)"
  by (auto simp: LoadFromFile_def JSONToYaml_def Let_def split: sum.splits)

text \<open>
  The theorem at four files that all can be read: \<open>vela.yaml\<close> and \<open>vela.json\<close>, both
  holding JSON text, \<open>Appfile\<close> holding JSON text, and \<open>conf.d/Appfile\<close> (the dot is in
  the directory, so there is no extension) holding YAML text.
\<close>

theorem LoadFromFile_dispatch_witness:
  "LoadFromFile exampleLib emptyStore ''vela.yaml'' =
     Inr ((NewAppFile emptyStore)\<lparr>Name := ''{\"name\": \"a\"}''\<rparr>) \<and>
   LoadFromFile exampleLib emptyStore ''vela.json'' =
     Inr ((NewAppFile emptyStore)\<lparr>Name := ''# from JSON\<newline>{\"name\": \"b\"}''\<rparr>) \<and>
   LoadFromFile exampleLib emptyStore ''Appfile'' =
     Inr ((NewAppFile emptyStore)\<lparr>Name := ''# from JSON\<newline>{\"name\": \"c\"}''\<rparr>) \<and>
   LoadFromFile exampleLib emptyStore ''conf.d/Appfile'' =
     Inr ((NewAppFile emptyStore)\<lparr>Name := ''name: d''\<rparr>)"
proof -
  let ?L = exampleLib
  have r1: "ReadFile ?L (Clean ?L ''vela.yaml'') = Inr ''{\"name\": \"a\"}''"
    and r2: "ReadFile ?L (Clean ?L ''vela.json'') = Inr ''{\"name\": \"b\"}''"
    and r3: "ReadFile ?L (Clean ?L ''Appfile'') = Inr ''{\"name\": \"c\"}''"
    and r4: "ReadFile ?L (Clean ?L ''conf.d/Appfile'') = Inr ''name: d''"
    by (simp_all add: exampleLib_def exampleFiles_def)
  have e1: "Ext ''vela.yaml'' = ''.yaml''" and e2: "Ext ''vela.json'' = ''.json''"
    and e3: "Ext ''Appfile'' = ''''" and e4: "Ext ''conf.d/Appfile'' = ''''"
    by (simp_all add: Ext_def)
  have v3: "json_Valid ?L ''{\"name\": \"c\"}''" and v4: "\<not> json_Valid ?L ''name: d''"
    by (simp_all add: exampleLib_def)
  have u: "\<And>b af. yaml_Unmarshal ?L b af = Inr (af\<lparr>Name := b\<rparr>)"
    and j: "\<And>b. yaml_JSONToYAML ?L b = Inr (''# from JSON\<newline>'' @ b)"
    by (simp_all add: exampleLib_def)
  have a: "LoadFromFile ?L emptyStore ''vela.yaml'' =
      yaml_Unmarshal ?L ''{\"name\": \"a\"}'' (NewAppFile emptyStore)"
    using LoadFromFile_dispatch [of ?L "''vela.yaml''" emptyStore "''{\"name\": \"a\"}''"] r1 e1
    by blast
  have b: "LoadFromFile ?L emptyStore ''vela.json'' =
      JSONToYaml ?L ''{\"name\": \"b\"}'' (NewAppFile emptyStore)"
    using LoadFromFile_dispatch [of ?L "''vela.json''" emptyStore "''{\"name\": \"b\"}''"] r2 e2
    by blast
  have c: "LoadFromFile ?L emptyStore ''Appfile'' =
      JSONToYaml ?L ''{\"name\": \"c\"}'' (NewAppFile emptyStore)"
    using LoadFromFile_dispatch [of ?L "''Appfile''" emptyStore "''{\"name\": \"c\"}''"] r3 e3 v3
    by simp
  have d: "LoadFromFile ?L emptyStore ''conf.d/Appfile'' =
      yaml_Unmarshal ?L ''name: d'' (NewAppFile emptyStore)"
    using LoadFromFile_dispatch [of ?L "''conf.d/Appfile''" emptyStore "''name: d''"] r4 e4 v4
    by simp
  have jy: "\<And>b. JSONToYaml ?L b (NewAppFile emptyStore) =
      Inr ((NewAppFile emptyStore)\<lparr>Name := ''# from JSON\<newline>'' @ b\<rparr>)"
    by (simp add: JSONToYaml_def u j)
  from a b c d show ?thesis by (simp add: u jy)
qed

subsection \<open>Claim C2\<close>

lemma validateFields_None:
  "validateFields tm serviceName fs = None \<longleftrightarrow>
   (\<forall>(traitName, v) \<in> set fs. IsTrait tm traitName \<longrightarrow> is_Mapping v)"
  by (induction fs) (auto split: if_splits)

lemma validateFields_Some:
  "validateFields tm serviceName fs = Some e \<Longrightarrow>
   \<exists>traitName v. (traitName, v) \<in> set fs \<and> IsTrait tm traitName \<and> \<not> is_Mapping v \<and>
     e = trait_must_be_map traitName serviceName"
proof (induction fs)
  case Nil
  then show ?case by simp
next
  case (Cons a fs)
  obtain t d where a: "a = (t, d)" by (cases a)
  show ?case
  proof (cases "IsTrait tm t \<and> \<not> is_Mapping d")
    case True
    with Cons.prems a have "e = trait_must_be_map t serviceName" by simp
    with True a show ?thesis by auto
  next
    case False
    with Cons.prems a have "validateFields tm serviceName fs = Some e" by auto
    from Cons.IH [OF this] show ?thesis by auto
  qed
qed

lemma validateServices_None:
  "validateServices tm ss = None \<longleftrightarrow>
   (\<forall>(serviceName, svc) \<in> set ss. \<forall>(traitName, v) \<in> set svc.
      IsTrait tm traitName \<longrightarrow> is_Mapping v)"
  by (induction ss) (auto simp: validateFields_None split: option.splits)

lemma validateServices_Some:
  "validateServices tm ss = Some e \<Longrightarrow>
   \<exists>serviceName svc traitName v. (serviceName, svc) \<in> set ss \<and> (traitName, v) \<in> set svc \<and>
     IsTrait tm traitName \<and> \<not> is_Mapping v \<and> e = trait_must_be_map traitName serviceName"
proof (induction ss)
  case Nil
  then show ?case by simp
next
  case (Cons a ss)
  obtain serviceName svc where a: "a = (serviceName, svc)" by (cases a)
  show ?case
  proof (cases "validateFields tm serviceName svc")
    case None
    with Cons a show ?thesis by auto
  next
    case (Some e')
    with Cons.prems a have "e' = e" by simp
    with Some validateFields_Some [of tm serviceName svc e] a show ?thesis by auto
  qed
qed

text \<open>
  C2. \<open>Validate\<close> returns no error exactly when the name is non-empty, there is at
  least one service, and every field of every service whose name is a known trait
  capability has a mapping value. An empty name gives the error
  \<open>name is required\<close>; a non-empty name without services gives
  \<open>at least one service is required\<close>; a non-empty name with services of which some
  trait field has no mapping value gives \<open>trait T in 'S' must be map\<close> for such a
  trait field \<open>T\<close> of a service \<open>S\<close>.
\<close>

theorem Validate_iff:
  "(Validate tm app = None \<longleftrightarrow>
      Name app \<noteq> '''' \<and> Services app \<noteq> [] \<and>
      (\<forall>(serviceName, svc) \<in> set (Services app). \<forall>(traitName, v) \<in> set svc.
         IsTrait tm traitName \<longrightarrow> is_Mapping v)) \<and>
   (Name app = '''' \<longrightarrow> Validate tm app = Some (Err ''name is required'')) \<and>
   (Name app \<noteq> '''' \<and> Services app = [] \<longrightarrow>
      Validate tm app = Some (Err ''at least one service is required'')) \<and>
   (Name app \<noteq> '''' \<and> Services app \<noteq> [] \<and>
    \<not> (\<forall>(serviceName, svc) \<in> set (Services app). \<forall>(traitName, v) \<in> set svc.
         IsTrait tm traitName \<longrightarrow> is_Mapping v) \<longrightarrow>
      (\<exists>serviceName svc traitName v.
         (serviceName, svc) \<in> set (Services app) \<and> (traitName, v) \<in> set svc \<and>
         IsTrait tm traitName \<and> \<not> is_Mapping v \<and>
         Validate tm app =
           Some (Err (''trait '' @ traitName @ '' in '' @ [CHR 0x27] @ serviceName @ [CHR 0x27]
                      @ '' must be map''))))"
proof (intro conjI impI)
  show "Validate tm app = None \<longleftrightarrow>
      Name app \<noteq> '''' \<and> Services app \<noteq> [] \<and>
      (\<forall>(serviceName, svc) \<in> set (Services app). \<forall>(traitName, v) \<in> set svc.
         IsTrait tm traitName \<longrightarrow> is_Mapping v)"
    by (simp add: Validate_def validateServices_None)
next
  assume "Name app = ''''"
  then show "Validate tm app = Some (Err ''name is required'')" by (simp add: Validate_def)
next
  assume "Name app \<noteq> '''' \<and> Services app = []"
  then show "Validate tm app = Some (Err ''at least one service is required'')"
    by (simp add: Validate_def)
next
  assume a: "Name app \<noteq> '''' \<and> Services app \<noteq> [] \<and>
    \<not> (\<forall>(serviceName, svc) \<in> set (Services app). \<forall>(traitName, v) \<in> set svc.
         IsTrait tm traitName \<longrightarrow> is_Mapping v)"
  then have v: "Validate tm app = validateServices tm (Services app)"
    by (simp add: Validate_def)
  from a have "validateServices tm (Services app) \<noteq> None"
    by (simp add: validateServices_None)
  then obtain e where e: "validateServices tm (Services app) = Some e" by blast
  from validateServices_Some [OF e] v e
  show "\<exists>serviceName svc traitName v.
         (serviceName, svc) \<in> set (Services app) \<and> (traitName, v) \<in> set svc \<and>
         IsTrait tm traitName \<and> \<not> is_Mapping v \<and>
         Validate tm app =
           Some (Err (''trait '' @ traitName @ '' in '' @ [CHR 0x27] @ serviceName @ [CHR 0x27]
                      @ '' must be map''))"
    by (auto simp: trait_must_be_map_def)
qed
text \<open>
  The theorem at the four descriptors of \<^verbatim>\<open>TestApplication\<close>, each with the template
  manager the test builds for it.
\<close>

theorem Validate_iff_witness:
  "Validate (traitTemplates [''autoscaling'', ''rollout'']) (yamlNormal emptyStore) = None \<and>
   Validate (traitTemplates []) (yamlNoName emptyStore) = Some (Err ''name is required'') \<and>
   Validate (traitTemplates []) (yamlNoService emptyStore) =
     Some (Err ''at least one service is required'') \<and>
   Validate (traitTemplates [''autoscaling'']) (yamlTraitNotMap emptyStore) =
     Some (Err (''trait autoscaling in '' @ [CHR 0x27] @ ''frontend'' @ [CHR 0x27]
                @ '' must be map''))"
proof -
  let ?tm2 = "traitTemplates [''autoscaling'', ''rollout'']"
  let ?tm1 = "traitTemplates [''autoscaling'']"
  let ?tm0 = "traitTemplates []"
  have n1: "Name (yamlNormal emptyStore) \<noteq> '''' \<and> Services (yamlNormal emptyStore) \<noteq> [] \<and>
      (\<forall>(serviceName, svc) \<in> set (Services (yamlNormal emptyStore)).
         \<forall>(traitName, v) \<in> set svc. IsTrait ?tm2 traitName \<longrightarrow> is_Mapping v)"
    by (simp add: yamlNormal_def NewAppFile_def frontendNormal_def backendNormal_def
        IsTrait_def traitTemplates_def)
  have a: "Validate ?tm2 (yamlNormal emptyStore) = None"
    using Validate_iff [of ?tm2 "yamlNormal emptyStore"] n1 by blast
  have n2: "Name (yamlNoName emptyStore) = ''''"
    by (simp add: yamlNoName_def NewAppFile_def)
  have b: "Validate ?tm0 (yamlNoName emptyStore) = Some (Err ''name is required'')"
    using Validate_iff [of ?tm0 "yamlNoName emptyStore"] n2 by blast
  have n3: "Name (yamlNoService emptyStore) \<noteq> '''' \<and> Services (yamlNoService emptyStore) = []"
    by (simp add: yamlNoService_def NewAppFile_def)
  have c: "Validate ?tm0 (yamlNoService emptyStore) =
      Some (Err ''at least one service is required'')"
    using Validate_iff [of ?tm0 "yamlNoService emptyStore"] n3 by blast
  have tr: "IsTrait ?tm1 t \<longleftrightarrow> t = ''autoscaling''" for t
    by (simp add: IsTrait_def traitTemplates_def)
  have n4: "Name (yamlTraitNotMap emptyStore) \<noteq> '''' \<and>
      Services (yamlTraitNotMap emptyStore) \<noteq> [] \<and>
      \<not> (\<forall>(serviceName, svc) \<in> set (Services (yamlTraitNotMap emptyStore)).
           \<forall>(traitName, v) \<in> set svc. IsTrait ?tm1 traitName \<longrightarrow> is_Mapping v)"
    by (simp add: yamlTraitNotMap_def NewAppFile_def tr)
  from Validate_iff [of ?tm1 "yamlTraitNotMap emptyStore"] n4
  obtain serviceName svc traitName v where
    m: "(serviceName, svc) \<in> set (Services (yamlTraitNotMap emptyStore))"
      "(traitName, v) \<in> set svc" "IsTrait ?tm1 traitName" and
    r: "Validate ?tm1 (yamlTraitNotMap emptyStore) =
      Some (Err (''trait '' @ traitName @ '' in '' @ [CHR 0x27] @ serviceName @ [CHR 0x27]
                 @ '' must be map''))"
    by blast
  from m(1) have "serviceName = ''frontend''"
    by (simp add: yamlTraitNotMap_def NewAppFile_def)
  moreover from m(3) have "traitName = ''autoscaling''" by (simp add: tr)
  ultimately have d: "Validate ?tm1 (yamlTraitNotMap emptyStore) =
     Some (Err (''trait autoscaling in '' @ [CHR 0x27] @ ''frontend'' @ [CHR 0x27]
                @ '' must be map''))"
    using r by simp
  from a b c d show ?thesis by blast
qed

section \<open>Properties of the Renderer\<close>

subsection \<open>The loop over the services\<close>

lemma renderService_objects:
  "renderService C app env tm serviceName svc = Inr (cms, c) \<Longrightarrow>
   \<exists>l. cms = map ConfigMapObject l"
proof -
  assume a: "renderService C app env tm serviceName svc = Inr (cms, c)"
  then have "cms = [] \<or> (\<exists>cm. cms = [ConfigMapObject cm])"
    by (auto simp: renderService_def Let_def split: if_splits sum.splits)
  then show ?thesis
  proof
    assume "cms = []"
    then have "cms = map ConfigMapObject []" by simp
    then show ?thesis by blast
  next
    assume "\<exists>cm. cms = [ConfigMapObject cm]"
    then obtain cm where "cms = map ConfigMapObject [cm]" by auto
    then show ?thesis by blast
  qed
qed

lemma renderServices_fail:
  "(serviceName, svc) \<in> set visit \<Longrightarrow> renderService C app env tm serviceName svc = Inl e \<Longrightarrow>
   \<exists>e'. renderServices C app env tm visit comps objs = Inl e'"
proof (induction visit arbitrary: comps objs)
  case Nil
  then show ?case by simp
next
  case (Cons a visit)
  obtain n s where a: "a = (n, s)" by (cases a)
  show ?case
  proof (cases "renderService C app env tm n s")
    case (Inl e0)
    with a show ?thesis by simp
  next
    case (Inr r)
    obtain cms c where r: "r = (cms, c)" by (cases r)
    from Inr Cons.prems a have "(serviceName, svc) \<in> set visit" by auto
    from Cons.IH [OF this Cons.prems(2)] Inr a r show ?thesis by simp
  qed
qed



lemma renderServices_shape:
  "renderServices C app env tm visit comps objs = Inr (comps', objs') \<Longrightarrow>
   length comps' = length comps + length visit \<and> (\<exists>l. objs' = objs @ map ConfigMapObject l)"
proof (induction visit arbitrary: comps objs)
  case Nil
  then have "objs' = objs @ map ConfigMapObject []" by simp
  with Nil show ?case by auto
next
  case (Cons a visit)
  obtain n s where a: "a = (n, s)" by (cases a)
  show ?case
  proof (cases "renderService C app env tm n s")
    case (Inl e)
    with Cons.prems a show ?thesis by simp
  next
    case (Inr r)
    obtain cms c where r: "r = (cms, c)" by (cases r)
    from renderService_objects Inr r obtain l0 where l0: "cms = map ConfigMapObject l0"
      by blast
    from Cons.prems Inr a r
    have "renderServices C app env tm visit (comps @ [c]) (objs @ cms) = Inr (comps', objs')"
      by simp
    from Cons.IH [OF this] obtain l where
      "length comps' = length (comps @ [c]) + length visit"
      "objs' = (objs @ cms) @ map ConfigMapObject l"
      by blast
    with l0 have "length comps' = length comps + length (a # visit)"
      and "objs' = objs @ map ConfigMapObject (l0 @ l)" by simp_all
    then show ?thesis by blast
  qed
qed

lemma BuildOAMApplication_cases:
  "(\<exists>e. renderServices C app env tm visit [] [] = Inl e \<and>
        BuildOAMApplication C app env tm visit = (None, [], Some e)) \<or>
   (\<exists>comps objs. renderServices C app env tm visit [] [] = Inr (comps, objs) \<and>
        BuildOAMApplication C app env tm visit =
          (Some \<lparr>appAPIVersion = SchemeGroupVersion C, appKind = ''Application'',
                 app_Name = Name app, app_Namespace = envNamespace env,
                 Components =
                   map (\<lambda>c. c\<lparr>Scopes := Some [(''healthscopes.core.oam.dev'',
                                                Name app @ ''-default-health'')]\<rparr>) comps\<rparr>,
           objs @ [HealthScopeObject
                     \<lparr>hsAPIVersion = HealthScopeGroupVersion C, hsKind = HealthScopeKind C,
                      hsName = Name app @ ''-default-health'',
                      hsNamespace = envNamespace env, WorkloadReferences = []\<rparr>],
           None))"
proof (cases "renderServices C app env tm visit [] []")
  case (Inl e)
  then show ?thesis by (simp add: BuildOAMApplication_def)
next
  case (Inr r)
  obtain comps objs where "r = (comps, objs)" by (cases r)
  with Inr show ?thesis
    by (simp add: BuildOAMApplication_def addDefaultHealthScopeToApplication_def
        FormatDefaultHealthScopeName_def Let_def)
qed

lemma renderService_causes:
  "(GetUserConfigName C svc \<noteq> '''' \<and>
      (\<exists>e. GetConfigData (configGetter app) (GetUserConfigName C svc) (envName env) = Inl e)) \<or>
   (GetUserConfigName C svc \<noteq> '''' \<and>
      (\<exists>d e. GetConfigData (configGetter app) (GetUserConfigName C svc) (envName env) = Inr d \<and>
          DecodeConfigFormat C d = Inl e)) \<or>
   (GetUserConfigName C svc \<noteq> '''' \<and>
      (\<exists>d m e. GetConfigData (configGetter app) (GetUserConfigName C svc) (envName env) = Inr d \<and>
          DecodeConfigFormat C d = Inr m \<and>
          ToConfigMap C (configGetter app)
            (GenConfigMapName C (Name app) serviceName (GetUserConfigName C svc))
            (envName env) m = Inl e)) \<or>
   (\<exists>e. RenderServiceToApplicationComponent C svc tm serviceName = Inl e) \<Longrightarrow>
   \<exists>e. renderService C app env tm serviceName svc = Inl e"
  by (auto simp: renderService_def Let_def split: sum.splits)


subsection \<open>Claim C4\<close>

text \<open>
  C4. Whatever the order in which the services are visited: if for some service of
  the descriptor the configuration store fails to deliver the configuration the
  service names, or the configuration data fail to decode, or the configuration object
  cannot be made of them, or the service fails to render to a component, then the call
  returns an error, no application and no assistant objects. And every call returns
  either that, or an application and its assistant objects with no error: never an
  error together with a part of the result.
\<close>

theorem BuildOAMApplication_all_or_nothing:
  "(go_range (GetServices app) visit \<and> (serviceName, svc) \<in> set (GetServices app) \<and>
    ((GetUserConfigName C svc \<noteq> '''' \<and>
        (\<exists>e. GetConfigData (configGetter app) (GetUserConfigName C svc) (envName env) = Inl e)) \<or>
     (GetUserConfigName C svc \<noteq> '''' \<and>
        (\<exists>d e. GetConfigData (configGetter app) (GetUserConfigName C svc) (envName env) = Inr d \<and>
            DecodeConfigFormat C d = Inl e)) \<or>
     (GetUserConfigName C svc \<noteq> '''' \<and>
        (\<exists>d m e. GetConfigData (configGetter app) (GetUserConfigName C svc) (envName env) = Inr d \<and>
            DecodeConfigFormat C d = Inr m \<and>
            ToConfigMap C (configGetter app)
              (GenConfigMapName C (Name app) serviceName (GetUserConfigName C svc))
              (envName env) m = Inl e)) \<or>
     (\<exists>e. RenderServiceToApplicationComponent C svc tm serviceName = Inl e)) \<longrightarrow>
    (\<exists>e. BuildOAMApplication C app env tm visit = (None, [], Some e))) \<and>
   ((\<exists>e. BuildOAMApplication C app env tm visit = (None, [], Some e)) \<or>
    (\<exists>servApp objs. BuildOAMApplication C app env tm visit = (Some servApp, objs, None)))"
proof (intro conjI impI)
  assume a: "go_range (GetServices app) visit \<and> (serviceName, svc) \<in> set (GetServices app) \<and>
    ((GetUserConfigName C svc \<noteq> '''' \<and>
        (\<exists>e. GetConfigData (configGetter app) (GetUserConfigName C svc) (envName env) = Inl e)) \<or>
     (GetUserConfigName C svc \<noteq> '''' \<and>
        (\<exists>d e. GetConfigData (configGetter app) (GetUserConfigName C svc) (envName env) = Inr d \<and>
            DecodeConfigFormat C d = Inl e)) \<or>
     (GetUserConfigName C svc \<noteq> '''' \<and>
        (\<exists>d m e. GetConfigData (configGetter app) (GetUserConfigName C svc) (envName env) = Inr d \<and>
            DecodeConfigFormat C d = Inr m \<and>
            ToConfigMap C (configGetter app)
              (GenConfigMapName C (Name app) serviceName (GetUserConfigName C svc))
              (envName env) m = Inl e)) \<or>
     (\<exists>e. RenderServiceToApplicationComponent C svc tm serviceName = Inl e))"
  then have "set visit = set (GetServices app)"
    using mset_eq_setD [of visit "GetServices app"] by (simp add: go_range_def)
  with a have m: "(serviceName, svc) \<in> set visit" by simp
  from a obtain e where "renderService C app env tm serviceName svc = Inl e"
    using renderService_causes [of C svc app env serviceName tm] by blast
  from renderServices_fail [OF m this, of "[]" "[]"]
  obtain e' where "renderServices C app env tm visit [] [] = Inl e'" by blast
  then show "\<exists>e. BuildOAMApplication C app env tm visit = (None, [], Some e)"
    by (simp add: BuildOAMApplication_def)
next
  show "(\<exists>e. BuildOAMApplication C app env tm visit = (None, [], Some e)) \<or>
    (\<exists>servApp objs. BuildOAMApplication C app env tm visit = (Some servApp, objs, None))"
    using BuildOAMApplication_cases [of C app env tm visit] by blast
qed

text \<open>
  The theorem at the descriptor whose third service has no image, the services visited
  last to first, and at the descriptor whose service names a configuration set the
  store does not have.
\<close>

theorem BuildOAMApplication_all_or_nothing_witness:
  "BuildOAMApplication exampleCollab noImage exampleEnv (traitTemplates [])
     (rev (GetServices noImage)) = (None, [], Some (Err ''image not defined'')) \<and>
   BuildOAMApplication exampleCollab missingConfig exampleEnv (traitTemplates [])
     (GetServices missingConfig) = (None, [], Some (Err ''config not found''))"
proof -
  let ?C = exampleCollab and ?tm = "traitTemplates []"
  let ?w = "[(''type'', String ''task'')]"
  let ?f = "[(''image'', String ''inanimate/echo-server''), (''config'', String ''test'')]"
  have g1: "go_range (GetServices noImage) (rev (GetServices noImage))"
    by (simp add: go_range_def)
  have m1: "(''worker'', ?w) \<in> set (GetServices noImage)"
    by (simp add: GetServices_def noImage_def NewAppFile_def)
  have c1: "\<exists>e. RenderServiceToApplicationComponent ?C ?w ?tm ''worker'' = Inl e"
    by (simp add: exampleCollab_def)
  from BuildOAMApplication_all_or_nothing [of noImage "rev (GetServices noImage)" "''worker''" ?w
      ?C exampleEnv ?tm] g1 m1 c1
  obtain e1 where e1: "BuildOAMApplication ?C noImage exampleEnv ?tm (rev (GetServices noImage))
      = (None, [], Some e1)"
    by blast
  have "snd (snd (BuildOAMApplication ?C noImage exampleEnv ?tm (rev (GetServices noImage))))
      = Some (Err ''image not defined'')"
    by code_simp
  with e1 have a: "BuildOAMApplication ?C noImage exampleEnv ?tm (rev (GetServices noImage))
      = (None, [], Some (Err ''image not defined''))"
    by simp
  have g2: "go_range (GetServices missingConfig) (GetServices missingConfig)"
    by (simp add: go_range_def)
  have m2: "(''frontend'', ?f) \<in> set (GetServices missingConfig)"
    by (simp add: GetServices_def missingConfig_def NewAppFile_def)
  have c2: "GetUserConfigName ?C ?f \<noteq> '''' \<and>
      (\<exists>e. GetConfigData (configGetter missingConfig) (GetUserConfigName ?C ?f)
              (envName exampleEnv) = Inl e)"
    by (simp add: exampleCollab_def missingConfig_def NewAppFile_def emptyStore_def)
  from BuildOAMApplication_all_or_nothing [of missingConfig "GetServices missingConfig"
      "''frontend''" ?f ?C exampleEnv ?tm] g2 m2 c2
  obtain e2 where e2: "BuildOAMApplication ?C missingConfig exampleEnv ?tm
      (GetServices missingConfig) = (None, [], Some e2)"
    by blast
  have "snd (snd (BuildOAMApplication ?C missingConfig exampleEnv ?tm
      (GetServices missingConfig))) = Some (Err ''config not found'')"
    by code_simp
  with e2 have b: "BuildOAMApplication ?C missingConfig exampleEnv ?tm
      (GetServices missingConfig) = (None, [], Some (Err ''config not found''))"
    by simp
  from a b show ?thesis by simp
qed

subsection \<open>Claim C1\<close>

text \<open>
  C1, as the claim states it, fails in its last part: the health object references no
  component. \<open>addDefaultHealthScopeToApplication\<close> makes the list of workload
  references empty and never adds to it; the reference goes the other way, from each
  component's scopes to the health object's name. For the descriptor with the services
  \<open>frontend\<close> and \<open>backend\<close> the call returns the two components and a health object
  whose references name neither.
\<close>

theorem health_scope_references_counterexample:
  "BuildOAMApplication exampleCollab twoServices exampleEnv (traitTemplates [])
     (GetServices twoServices) =
   (Some \<lparr>appAPIVersion = ''core.oam.dev/v1alpha2'', appKind = ''Application'',
          app_Name = ''myapp'', app_Namespace = ''default'',
          Components =
            [\<lparr>compName = ''frontend'', WorkloadType = ''webservice'',
              Settings = [(''image'', String ''inanimate/echo-server'')], Traits = [],
              Scopes = Some [(''healthscopes.core.oam.dev'', ''myapp-default-health'')]\<rparr>,
             \<lparr>compName = ''backend'', WorkloadType = ''cloneset'',
              Settings = [(''image'', String ''back:v1'')], Traits = [],
              Scopes = Some [(''healthscopes.core.oam.dev'', ''myapp-default-health'')]\<rparr>]\<rparr>,
    [HealthScopeObject
       \<lparr>hsAPIVersion = ''core.oam.dev/v1alpha2'', hsKind = ''HealthScope'',
        hsName = ''myapp-default-health'', hsNamespace = ''default'',
        WorkloadReferences = []\<rparr>],
    None) \<and>
   \<not> (\<forall>name \<in> set [''frontend'', ''backend'']. name \<in> refName ` set [])"
proof (rule conjI)
  show "\<not> (\<forall>name \<in> set [''frontend'', ''backend'']. name \<in> refName ` set [])"
    by auto
qed (simp add: BuildOAMApplication_def addDefaultHealthScopeToApplication_def
      FormatDefaultHealthScopeName_def renderService_def exampleCollab_def twoServices_def
      NewAppFile_def GetServices_def backendNormal_def exampleEnv_def Let_def)

text \<open>
  C1, amended. When the render operation returns an application, it returns no error,
  and its assistant objects are the configuration objects of the services followed by
  exactly one health object. The health object's name is the application name
  followed by \<open>-default-health\<close>, its namespace is the environment's, and its list of
  workload references is empty. The application has one component for each service of
  the descriptor, and every component references the health object by name in its
  scopes.
\<close>

theorem BuildOAMApplication_health_scope:
  "go_range (GetServices app) visit \<and>
   BuildOAMApplication C app env tm visit = (Some servApp, objs, err) \<longrightarrow>
     err = None \<and>
     length (Components servApp) = length (GetServices app) \<and>
     (\<exists>cms health.
        objs = map ConfigMapObject cms @ [HealthScopeObject health] \<and>
        hsName health = Name app @ ''-default-health'' \<and>
        hsNamespace health = envNamespace env \<and>
        WorkloadReferences health = [] \<and>
        (\<forall>c \<in> set (Components servApp).
           Scopes c = Some [(''healthscopes.core.oam.dev'', hsName health)]))"
proof (intro impI)
  assume a: "go_range (GetServices app) visit \<and>
   BuildOAMApplication C app env tm visit = (Some servApp, objs, err)"
  let ?data = "Some [(''healthscopes.core.oam.dev'', Name app @ ''-default-health'')]"
  let ?health = "\<lparr>hsAPIVersion = HealthScopeGroupVersion C, hsKind = HealthScopeKind C,
      hsName = Name app @ ''-default-health'', hsNamespace = envNamespace env,
      WorkloadReferences = []\<rparr>"
  from a BuildOAMApplication_cases [of C app env tm visit]
  obtain comps objs0 where r: "renderServices C app env tm visit [] [] = Inr (comps, objs0)"
    and e: "err = None" and o: "objs = objs0 @ [HealthScopeObject ?health]"
    and s: "Components servApp = map (\<lambda>c. c\<lparr>Scopes := ?data\<rparr>) comps"
    by auto
  from renderServices_shape [OF r] obtain cms where
    len: "length comps = length visit" and cms: "objs0 = map ConfigMapObject cms"
    by auto
  from a have "size (mset visit) = size (mset (GetServices app))"
    by (simp add: go_range_def)
  then have lv: "length visit = length (GetServices app)" by simp
  have refs: "\<forall>c \<in> set (Components servApp).
      Scopes c = Some [(''healthscopes.core.oam.dev'', hsName ?health)]"
    using s by auto
  have "objs = map ConfigMapObject cms @ [HealthScopeObject ?health] \<and>
        hsName ?health = Name app @ ''-default-health'' \<and>
        hsNamespace ?health = envNamespace env \<and>
        WorkloadReferences ?health = [] \<and>
        (\<forall>c \<in> set (Components servApp).
           Scopes c = Some [(''healthscopes.core.oam.dev'', hsName ?health)])"
    using o cms refs by simp
  then have "\<exists>cms health.
        objs = map ConfigMapObject cms @ [HealthScopeObject health] \<and>
        hsName health = Name app @ ''-default-health'' \<and>
        hsNamespace health = envNamespace env \<and>
        WorkloadReferences health = [] \<and>
        (\<forall>c \<in> set (Components servApp).
           Scopes c = Some [(''healthscopes.core.oam.dev'', hsName health)])"
    by blast
  with e s len lv show "err = None \<and>
     length (Components servApp) = length (GetServices app) \<and>
     (\<exists>cms health.
        objs = map ConfigMapObject cms @ [HealthScopeObject health] \<and>
        hsName health = Name app @ ''-default-health'' \<and>
        hsNamespace health = envNamespace env \<and>
        WorkloadReferences health = [] \<and>
        (\<forall>c \<in> set (Components servApp).
           Scopes c = Some [(''healthscopes.core.oam.dev'', hsName health)]))"
    by simp
qed

text \<open>
  The theorem at the descriptor with two services, visited last to first: the only
  assistant object is the health object \<open>myapp-default-health\<close>, and both components
  name it in their scopes.
\<close>

theorem BuildOAMApplication_health_scope_witness:
  "fst (snd (BuildOAMApplication exampleCollab twoServices exampleEnv (traitTemplates [])
     (rev (GetServices twoServices)))) =
     [HealthScopeObject
        \<lparr>hsAPIVersion = ''core.oam.dev/v1alpha2'', hsKind = ''HealthScope'',
         hsName = ''myapp-default-health'', hsNamespace = ''default'',
         WorkloadReferences = []\<rparr>] \<and>
   map Scopes (Components (the (fst (BuildOAMApplication exampleCollab twoServices exampleEnv
     (traitTemplates []) (rev (GetServices twoServices)))))) =
     [Some [(''healthscopes.core.oam.dev'', ''myapp-default-health'')],
      Some [(''healthscopes.core.oam.dev'', ''myapp-default-health'')]] \<and>
   snd (snd (BuildOAMApplication exampleCollab twoServices exampleEnv (traitTemplates [])
     (rev (GetServices twoServices)))) = None"
proof -
  let ?B = "BuildOAMApplication exampleCollab twoServices exampleEnv (traitTemplates [])
     (rev (GetServices twoServices))"
  have g: "go_range (GetServices twoServices) (rev (GetServices twoServices))"
    by (simp add: go_range_def)
  have "fst ?B \<noteq> None" by code_simp
  then obtain servApp objs err where B: "?B = (Some servApp, objs, err)"
    by (cases ?B) auto
  have n: "Name twoServices = ''myapp''" and ns: "envNamespace exampleEnv = ''default''"
    and l: "length (GetServices twoServices) = 2"
    by (simp_all add: twoServices_def NewAppFile_def exampleEnv_def GetServices_def)
  have k: "fst (snd ?B) \<noteq> [] \<and>
      (case last (fst (snd ?B)) of HealthScopeObject h \<Rightarrow>
         hsAPIVersion h = ''core.oam.dev/v1alpha2'' \<and> hsKind h = ''HealthScope''
       | _ \<Rightarrow> False) \<and> length (fst (snd ?B)) = 1"
    by code_simp
  from BuildOAMApplication_health_scope [of twoServices "rev (GetServices twoServices)"
      exampleCollab exampleEnv "traitTemplates []" servApp objs err] g B
  obtain cms health where e: "err = None"
    and len: "length (Components servApp) = length (GetServices twoServices)"
    and o: "objs = map ConfigMapObject cms @ [HealthScopeObject health]"
    and h: "hsName health = Name twoServices @ ''-default-health''"
      "hsNamespace health = envNamespace exampleEnv" "WorkloadReferences health = []"
    and sc: "\<forall>c \<in> set (Components servApp).
        Scopes c = Some [(''healthscopes.core.oam.dev'', hsName health)]"
    by blast
  from k B o have "cms = []" and "hsAPIVersion health = ''core.oam.dev/v1alpha2''"
    and "hsKind health = ''HealthScope''" by simp_all
  with h n ns have health: "health =
      \<lparr>hsAPIVersion = ''core.oam.dev/v1alpha2'', hsKind = ''HealthScope'',
       hsName = ''myapp-default-health'', hsNamespace = ''default'',
       WorkloadReferences = []\<rparr>"
    by (cases health) simp
  from len l obtain c1 c2 where cs: "Components servApp = [c1, c2]"
    by (cases "Components servApp"; cases "tl (Components servApp)") auto
  with sc h n have "map Scopes (Components servApp) =
     [Some [(''healthscopes.core.oam.dev'', ''myapp-default-health'')],
      Some [(''healthscopes.core.oam.dev'', ''myapp-default-health'')]]"
    by simp
  with B e o \<open>cms = []\<close> health show ?thesis by simp
qed

subsection \<open>Claim C3\<close>




end
